theory Spec2Isabelle
  imports Main "HOL-Library.AList" "HOL-Library.Char_ord" "HOL-Library.List_Lexorder"
    "HOL-Library.Multiset"
begin

section \<open>Promises, errors and the console\<close>

text \<open>
  The grading page (\<open>cpo-grade.js\<close>) and the modal prompt are written against the Q promise
  library. A promise of the grading page is described here by the state it has reached once
  the event loop has nothing left to run: fulfilled with a value, rejected with an error, or
  still pending, which then means that it is never settled.

  An error is one of the three kinds that occur: a ReferenceError carries the name of the
  variable that is not bound, a TypeError the name of the property that was read from
  \<open>undefined\<close>, and an Error its message (also used for the reason a remote call gives
  when it fails).
\<close>

datatype jserror =
    ReferenceError string
  | TypeError string
  | Error string

datatype 'a promise = Pending | Fulfilled 'a | Rejected jserror

text \<open>
  A function that returns nothing returns \<open>undefined\<close>; a function body can also throw.
\<close>

datatype 'a completion = ReturnsUndefined | Returns 'a | Throws jserror

text \<open>
  What the code writes to the console: the two messages of \<open>promiseRetry\<close> (the first
  carries the wait, kept in milliseconds), a message given to \<open>console.error\<close>, and an
  error object given to \<open>console.error\<close>.
\<close>

datatype console_entry =
    RetryingRequestIn nat
  | RetryingRequestNow
  | ConsoleErrorMessage string
  | ConsoleError jserror

text \<open>
  A call is described by what it returns, the console lines it causes (now or in a later
  turn of the event loop), the waits it hands to \<open>setTimeout\<close> and the errors thrown
  inside promise handlers, which Q turns into rejections of promises nobody holds.
\<close>

record 'a call =
  returned :: 'a
  console :: "console_entry list"
  timeouts :: "nat list"
  thrown :: "jserror list"

definition quiet :: "'a \<Rightarrow> 'a call" where
  "quiet v = \<lparr>returned = v, console = [], timeouts = [], thrown = []\<rparr>"

section \<open>The host page\<close>

text \<open>
  \<open>promiseRetry\<close> reads a variable \<open>n\<close> that neither it nor the enclosing module
  function declares, so the name is looked up in the global object of the page:
  \<open>global_n = None\<close> is a page without such a global (the read throws a ReferenceError),
  \<open>Some k\<close> a page that defines the number \<open>k\<close>. \<open>random1000 i\<close> is the value of
  \<open>Math.round(Math.random() * 1000)\<close> at the draw made by attempt \<open>i\<close>.
\<close>

record host =
  global_n :: "nat option"
  random1000 :: "nat \<Rightarrow> nat"

section \<open>promiseRetry\<close>

text \<open>
  \<open>promiseRetry(promise, iteration, max)\<close> makes a deferred and returns its promise. The
  success handler resolves the deferred. The failure handler rejects it when
  \<open>iteration >= max\<close>; otherwise it computes the wait from \<open>n\<close>, logs, and sets a timer
  whose callback logs again and calls \<open>promiseRetry(promise, iteration + 1, max)\<close> with the
  same promise, dropping what that call returns. The deferred of the outer call is touched
  by no one after that. (\<open>maxi\<close> is the source's \<open>max\<close>.)
\<close>

function promiseRetry :: "host \<Rightarrow> 'a promise \<Rightarrow> nat \<Rightarrow> nat \<Rightarrow> 'a promise call" where
  "promiseRetry h promise iteration maxi =
     (case promise of
        Pending \<Rightarrow> quiet Pending
      | Fulfilled resolvedObject \<Rightarrow> quiet (Fulfilled resolvedObject)
      | Rejected err \<Rightarrow>
          if iteration \<ge> maxi then quiet (Rejected err)
          else (case global_n h of
                  None \<Rightarrow> (quiet Pending)\<lparr>thrown := [ReferenceError ''n'']\<rparr>
                | Some n \<Rightarrow>
                    let timeToWait = 2 ^ n * 1000 + random1000 h iteration;
                        again = promiseRetry h promise (iteration + 1) maxi
                    in \<lparr>returned = Pending,
                        console = RetryingRequestIn timeToWait # RetryingRequestNow # console again,
                        timeouts = timeToWait # timeouts again,
                        thrown = thrown again\<rparr>))"
  by pat_completeness auto
termination
  by (relation "measure (\<lambda>(h, promise, iteration, maxi). maxi - iteration)") auto

declare promiseRetry.simps [simp del]

section \<open>getFile and getFilesInFolder\<close>

text \<open>
  The storage API is published through \<open>window.storageAPI\<close>; until that promise resolves
  the module variable \<open>api\<close> is unset (\<open>None\<close>). A file or folder object answers
  \<open>getName()\<close> and \<open>getUniqueId()\<close>.
\<close>

datatype drive_file = DriveFile (getName: string) (getUniqueId: string)

record storage_api =
  getFileById :: "string \<Rightarrow> drive_file promise"
  api_getFilesInFolder :: "string \<Rightarrow> drive_file list promise"

definition errNoApiMessage :: string where
  "errNoApiMessage = ''Attempted to get file(s) before storageAPI defined''"

definition returning :: "'a call \<Rightarrow> 'a completion call" where
  "returning c =
     \<lparr>returned = Returns (returned c), console = console c,
      timeouts = timeouts c, thrown = thrown c\<rparr>"

definition getFile :: "host \<Rightarrow> storage_api option \<Rightarrow> string \<Rightarrow> drive_file promise completion call" where
  "getFile h api ident =
     (case api of
        Some a \<Rightarrow> returning (promiseRetry h (getFileById a ident) 0 5)
      | None \<Rightarrow> (quiet ReturnsUndefined)\<lparr>console := [ConsoleErrorMessage errNoApiMessage]\<rparr>)"

definition getFilesInFolder ::
  "host \<Rightarrow> storage_api option \<Rightarrow> string \<Rightarrow> drive_file list promise completion call" where
  "getFilesInFolder h api folderId =
     (case api of
        Some a \<Rightarrow> returning (promiseRetry h (api_getFilesInFolder a folderId) 0 5)
      | None \<Rightarrow> (quiet ReturnsUndefined)\<lparr>console := [ConsoleErrorMessage errNoApiMessage]\<rparr>)"


section \<open>gatherSubmissions\<close>

text \<open>
  The value a per-student promise chain carries as \<open>files\<close>: the array a listing resolved
  with, \<open>null\<close> (no folder named final-submission) or \<open>undefined\<close>. Only an array is
  truthy. The \<open>submissions\<close> object is a property list; \<open>submissions[name] = files\<close>
  overwrites the property when it exists and appends it otherwise.
\<close>

datatype files_val = FilesUndefined | FilesNull | FilesArray "drive_file list"

fun truthy :: "files_val \<Rightarrow> bool" where
  "truthy (FilesArray files) = True"
| "truthy FilesNull = False"
| "truthy FilesUndefined = False"

type_synonym submissions = "(string \<times> files_val) list"

definition after :: "'a call \<Rightarrow> 'b call \<Rightarrow> 'b call" where
  "after c d =
     \<lparr>returned = returned d, console = console c @ console d,
      timeouts = timeouts c @ timeouts d, thrown = thrown c @ thrown d\<rparr>"

definition with_result :: "'a call \<Rightarrow> 'b \<Rightarrow> 'b call" where
  "with_result c v =
     \<lparr>returned = v, console = console c, timeouts = timeouts c, thrown = thrown c\<rparr>"

text \<open>
  \<open>Q.all\<close>: fulfilled with all the values when every promise is fulfilled, rejected as
  soon as one is rejected, pending otherwise.
\<close>

fun Q_all :: "'a promise list \<Rightarrow> 'a list promise" where
  "Q_all [] = Fulfilled []"
| "Q_all (p # ps) =
     (case p of
        Rejected e \<Rightarrow> Rejected e
      | Pending \<Rightarrow> (case Q_all ps of Rejected e \<Rightarrow> Rejected e | _ \<Rightarrow> Pending)
      | Fulfilled v \<Rightarrow>
          (case Q_all ps of
             Fulfilled vs \<Rightarrow> Fulfilled (v # vs)
           | Rejected e \<Rightarrow> Rejected e
           | Pending \<Rightarrow> Pending))"

text \<open>
  The last handler of a student's chain: \<open>if (files) { submissions[name] = files; }\<close>.
\<close>

definition store :: "string \<Rightarrow> files_val \<Rightarrow> submissions \<Rightarrow> submissions" where
  "store name files subs = (if truthy files then AList.update name files subs else subs)"

definition final_handler ::
  "string \<Rightarrow> files_val promise \<Rightarrow> submissions \<Rightarrow> files_val promise \<times> submissions" where
  "final_handler name p subs =
     (case p of
        Fulfilled files \<Rightarrow> (Fulfilled files, store name files subs)
      | Rejected e \<Rightarrow> (Rejected e, subs)
      | Pending \<Rightarrow> (Pending, subs))"

text \<open>
  The callback given to \<open>students.map\<close>, for one student. \<open>gfi\<close> stands for the module's
  function \<open>getFilesInFolder\<close>. The callback throws (\<open>Inl\<close>) when the first listing call
  returns \<open>undefined\<close>, on which \<open>.then\<close> cannot be called; otherwise it returns the
  promise of the chain (\<open>Inr\<close>). The second handler returns what \<open>getFilesInFolder\<close>
  returns for the folder found, or \<open>null\<close>.
\<close>

definition student_chain ::
  "(string \<Rightarrow> drive_file list promise completion call) \<Rightarrow> drive_file \<Rightarrow> submissions \<Rightarrow>
   ((jserror + files_val promise) \<times> submissions) call" where
  "student_chain gfi student subs =
     (let name = getName student;
          listed = gfi (getUniqueId student)
      in case returned listed of
           ReturnsUndefined \<Rightarrow> with_result listed (Inl (TypeError ''then''), subs)
         | Throws e \<Rightarrow> with_result listed (Inl e, subs)
         | Returns Pending \<Rightarrow> with_result listed (Inr Pending, subs)
         | Returns (Rejected err) \<Rightarrow> with_result listed (Inr (Rejected err), subs)
         | Returns (Fulfilled dirs) \<Rightarrow>
             (case find (\<lambda>dir. getName dir = ''final-submission'') dirs of
                None \<Rightarrow>
                  (case final_handler name (Fulfilled FilesNull) subs of
                     (p, subs') \<Rightarrow> with_result listed (Inr p, subs'))
              | Some dir \<Rightarrow>
                  (let inner = after listed (gfi (getUniqueId dir));
                       files = (case returned inner of
                                  ReturnsUndefined \<Rightarrow> Fulfilled FilesUndefined
                                | Throws e \<Rightarrow> Rejected e
                                | Returns Pending \<Rightarrow> Pending
                                | Returns (Rejected err) \<Rightarrow> Rejected err
                                | Returns (Fulfilled fs) \<Rightarrow> Fulfilled (FilesArray fs))
                   in case final_handler name files subs of
                        (p, subs') \<Rightarrow> with_result inner (Inr p, subs'))))"

text \<open>
  \<open>students.map(...)\<close>: the callback runs for each student in turn and a throw ends the
  map. The handlers of different students run as their listings arrive; the model runs
  each chain to its end before the next one starts, which gives the same object whenever
  the students' names are distinct.
\<close>

fun gather_students ::
  "(string \<Rightarrow> drive_file list promise completion call) \<Rightarrow> drive_file list \<Rightarrow> submissions \<Rightarrow>
   ((jserror + files_val promise list) \<times> submissions) call" where
  "gather_students gfi [] subs = quiet (Inr [], subs)"
| "gather_students gfi (student # students) subs =
     (let c = student_chain gfi student subs
      in case returned c of
           (Inl e, subs') \<Rightarrow> with_result c (Inl e, subs')
         | (Inr p, subs') \<Rightarrow>
             (let cs = after c (gather_students gfi students subs')
              in case returned cs of
                   (Inl e, subs'') \<Rightarrow> with_result cs (Inl e, subs'')
                 | (Inr ps, subs'') \<Rightarrow> with_result cs (Inr (p # ps), subs'')))"

text \<open>
  \<open>gatherSubmissions\<close> returns the promise of its own deferred, or throws when the first
  listing call returned \<open>undefined\<close>. The deferred is resolved with \<open>submissions\<close> by the
  handler that follows \<open>Q.all\<close>; the failure handler at the end of the chain gives the error
  to \<open>console.error\<close> and does nothing else.
\<close>

definition logging_failure :: "'a call \<Rightarrow> jserror \<Rightarrow> submissions promise completion call" where
  "logging_failure c err =
     \<lparr>returned = Returns Pending, console = console c @ [ConsoleError err],
      timeouts = timeouts c, thrown = thrown c\<rparr>"

definition gatherSubmissions_on ::
  "(string \<Rightarrow> drive_file list promise completion call) \<Rightarrow> string \<Rightarrow>
   submissions promise completion call" where
  "gatherSubmissions_on gfi submissionsFolderId =
     (let listed = gfi submissionsFolderId
      in case returned listed of
           ReturnsUndefined \<Rightarrow> with_result listed (Throws (TypeError ''then''))
         | Throws e \<Rightarrow> with_result listed (Throws e)
         | Returns Pending \<Rightarrow> with_result listed (Returns Pending)
         | Returns (Rejected err) \<Rightarrow> logging_failure listed err
         | Returns (Fulfilled students) \<Rightarrow>
             (let g = after listed (gather_students gfi students [])
              in case returned g of
                   (Inl e, subs) \<Rightarrow> logging_failure g e
                 | (Inr ps, subs) \<Rightarrow>
                     (case Q_all ps of
                        Fulfilled vs \<Rightarrow> with_result g (Returns (Fulfilled subs))
                      | Rejected err \<Rightarrow> logging_failure g err
                      | Pending \<Rightarrow> with_result g (Returns Pending))))"

definition gatherSubmissions ::
  "host \<Rightarrow> storage_api option \<Rightarrow> string \<Rightarrow> submissions promise completion call" where
  "gatherSubmissions h api submissionsFolderId =
     gatherSubmissions_on (getFilesInFolder h api) submissionsFolderId"

text \<open>
  A drive for the examples: the assignment folder holds the students alice and bob; alice
  has a folder final-submission with two files, bob has only a folder drafts.
\<close>

definition example_listing :: "string \<Rightarrow> drive_file list promise" where
  "example_listing folderId =
     (if folderId = ''assignment'' then
        Fulfilled [DriveFile ''alice'' ''id-alice'', DriveFile ''bob'' ''id-bob'']
      else if folderId = ''id-alice'' then
        Fulfilled [DriveFile ''notes'' ''id-notes'', DriveFile ''final-submission'' ''id-final'']
      else if folderId = ''id-bob'' then
        Fulfilled [DriveFile ''drafts'' ''id-drafts'']
      else if folderId = ''id-final'' then
        Fulfilled [DriveFile ''impl.arr'' ''id-impl'', DriveFile ''tests.arr'' ''id-tests'']
      else Fulfilled [])"

definition example_drive :: storage_api where
  "example_drive =
     \<lparr>getFileById = (\<lambda>ident. Fulfilled (DriveFile ''suite.arr'' ident)),
      api_getFilesInFolder = example_listing\<rparr>"

text \<open>A drive on which every listing fails.\<close>

definition failing_drive :: storage_api where
  "failing_drive =
     \<lparr>getFileById = (\<lambda>ident. Rejected (Error ''503'')),
      api_getFilesInFolder = (\<lambda>folderId. Rejected (Error ''503''))\<rparr>"

text \<open>
  What a drive holds for a student, read off the listings: \<open>final_files\<close> is the array of
  the student's folder final-submission when the student has one, \<open>listed\<close> says that the
  listings the student needs all succeed, \<open>gathered\<close> is the object with one property for
  each student that has such a folder, and \<open>chain_value\<close> the value \<open>files\<close> of the
  student's chain.
\<close>

definition final_files :: "(string \<Rightarrow> drive_file list promise) \<Rightarrow> drive_file \<Rightarrow> files_val option" where
  "final_files listing student =
     (case listing (getUniqueId student) of
        Fulfilled dirs \<Rightarrow>
          (case find (\<lambda>dir. getName dir = ''final-submission'') dirs of
             None \<Rightarrow> None
           | Some dir \<Rightarrow>
               (case listing (getUniqueId dir) of
                  Fulfilled files \<Rightarrow> Some (FilesArray files)
                | Rejected e \<Rightarrow> None
                | Pending \<Rightarrow> None))
      | Rejected e \<Rightarrow> None
      | Pending \<Rightarrow> None)"

definition listed :: "(string \<Rightarrow> drive_file list promise) \<Rightarrow> drive_file \<Rightarrow> bool" where
  "listed listing student =
     (case listing (getUniqueId student) of
        Fulfilled dirs \<Rightarrow>
          (case find (\<lambda>dir. getName dir = ''final-submission'') dirs of
             None \<Rightarrow> True
           | Some dir \<Rightarrow>
               (case listing (getUniqueId dir) of
                  Fulfilled files \<Rightarrow> True
                | Rejected e \<Rightarrow> False
                | Pending \<Rightarrow> False))
      | Rejected e \<Rightarrow> False
      | Pending \<Rightarrow> False)"

definition gathered :: "(string \<Rightarrow> drive_file list promise) \<Rightarrow> drive_file list \<Rightarrow> submissions" where
  "gathered listing students =
     List.map_filter (\<lambda>s. map_option (Pair (getName s)) (final_files listing s)) students"

definition chain_value :: "(string \<Rightarrow> drive_file list promise) \<Rightarrow> drive_file \<Rightarrow> files_val" where
  "chain_value listing student = (case final_files listing student of None \<Rightarrow> FilesNull | Some v \<Rightarrow> v)"

section \<open>The result exporter\<close>

text \<open>
  What \<open>generateJSON\<close> gives to \<open>JSON.stringify\<close> is a tree of objects, arrays, strings
  and booleans. An object is the list of its properties in the order in which they were
  created; an assignment to an existing property keeps its place. The order in which an
  object's properties are listed when it is serialized is another one, given below.

  A run result is what the runner hands to the callback in \<open>makeTarget\<close>, which stores it
  in the target: a success result carries the answer (a right answer holds the check
  blocks) and, for a run that ended in an error, the error's name; a failure result
  carries the error's name, stack and location. A target that was not run has no result.
\<close>

datatype json =
    JNull
  | JBool bool
  | JString string
  | JArray "json list"
  | JObject "(string \<times> json) list"

text \<open>
  A test result answers \<open>$name\<close>, \<open>code\<close> and \<open>loc\<close>; a check block has a name and its
  test results.
\<close>

datatype check_test = CheckTest (test_name: string) (test_code: string) (test_loc: json)

datatype check_block = CheckBlock (check_name: string) (test_results: "check_test list")

datatype run_answer = RightAnswer "check_block list" | LeftAnswer

datatype run_result =
    SuccessResult run_answer "string option"
  | FailureResult string json json


























section \<open>The grading table\<close>

text \<open>
  The cells of \<open>#tbl\<close> (its \<open>td\<close> and \<open>th\<close> elements, in document order) with the three
  things the code changes: the classes, the background colour and the title.
\<close>

datatype css_class = Def | Dis | Fin | Tooltip | Nohov

record cell =
  classes :: "css_class set"
  background :: string
  title :: string

type_synonym grading_table = "cell list"

text \<open>
  The two sweeps over the table: \<open>$("#tbl td.def, #tbl th.def").addClass("dis").removeClass("def")\<close>
  and \<open>$("#tbl td.dis, #tbl th.dis").addClass("def").removeClass("dis")\<close>, for one cell.
\<close>

definition disable_runnable :: "cell \<Rightarrow> cell" where
  "disable_runnable c = (if Def \<in> classes c then c\<lparr>classes := insert Dis (classes c) - {Def}\<rparr> else c)"

definition enable_disabled :: "cell \<Rightarrow> cell" where
  "enable_disabled c = (if Dis \<in> classes c then c\<lparr>classes := insert Def (classes c) - {Dis}\<rparr> else c)"

text \<open>
  The click handler that \<open>makeTarget(target)\<close> returns, for the cell at position \<open>i\<close>, up
  to its call of \<open>target.eval\<close>; and the callback it gives to \<open>target.eval\<close>, which the
  runner calls with the result. The callback colours and titles the cell by the kind of
  the result (\<open>mark_result\<close>) before it marks the cell finished.
\<close>

definition target_clicked :: "nat \<Rightarrow> grading_table \<Rightarrow> grading_table" where
  "target_clicked i tbl =
     map disable_runnable
       (tbl[i := (tbl ! i)\<lparr>classes := classes (tbl ! i) - {Def}, background := ''#f7cb2a''\<rparr>])"

definition mark_result :: "run_result \<Rightarrow> cell \<Rightarrow> cell" where
  "mark_result result targetTD =
     (case result of
        SuccessResult answer None \<Rightarrow>
          targetTD\<lparr>background := ''#30ba40'', title := ''Run (compile, runtime success)''\<rparr>
      | SuccessResult answer (Some r) \<Rightarrow>
          targetTD\<lparr>background := ''#30ba40'',
                   title := ''Run (compile success, runtime error: '' @ r @ '')''\<rparr>
      | FailureResult r stack loc \<Rightarrow>
          targetTD\<lparr>background := ''#de1d10'', title := ''Run (compile error: '' @ r @ '')''\<rparr>)"

definition target_finished :: "nat \<Rightarrow> run_result \<Rightarrow> grading_table \<Rightarrow> grading_table" where
  "target_finished i result tbl =
     map enable_disabled
       (tbl[i := (let targetTD = mark_result result (tbl ! i)
                  in targetTD\<lparr>classes := insert Fin (classes targetTD)\<rparr>)])"


section \<open>The modal prompt\<close>

text \<open>
  The prompt module is modelled as a page that reacts to calls and events. A prompt
  resolves its deferred with a string, \<open>null\<close> or \<open>undefined\<close>.
\<close>

datatype jsval = Undefined | Null | Str string

text \<open>
  The argument of the constructor: \<open>style\<close>, the list \<open>options\<close> (absent, or an array),
  \<open>hideSubmit\<close> and \<open>title\<close>. An option has a message and a value; its other fields only
  change how it is drawn.
\<close>

record modal_option =
  message :: string
  opt_value :: string

record prompt_options =
  style :: string
  options :: "modal_option list option"
  hideSubmit :: bool
  prompt_title :: string

text \<open>
  An option is drawn as a row with a radio input (its value, and whether it is checked)
  or as a tile. A prompt keeps its options object, its deferred and promise (the address
  of the promise in the page's store, absent after \<open>delete\<close>), the cache of the elements
  it drew, and whether its container \<open>elts\<close> currently holds them.
\<close>

datatype element = RadioElt string bool | TileElt string

record prompt =
  this_options :: prompt_options
  deferred :: "nat option"
  this_promise :: "nat option"
  isCompiled :: bool
  compiledElts :: "element list"
  elts_filled :: bool

text \<open>
  The page: the prompts constructed so far (a prompt is named by its position), the
  promises made by \<open>Q.defer()\<close>, the callbacks given to \<open>promptQueue.then\<close> that wait
  for their turn, the modal \<open>#promptModal\<close> that all prompts share (displayed or not, the
  prompt whose container is the content of \<open>.modal-body\<close>, the title, the submit button
  shown or hidden), the handlers bound to the close button, to the submit button and to
  the document, in the order of binding (each is named by the prompt it is bound to), and
  the errors that handlers threw. Code holds references only to prompts that were
  constructed and to promises that were made, so the positions it uses are in range.
\<close>

record page =
  prompts :: "prompt list"
  promises :: "jsval promise list"
  promptQueue_tasks :: "nat list"
  modal_display :: bool
  modal_body :: "nat option"
  modal_title :: string
  submit_shown :: bool
  close_click :: "nat list"
  submit_click :: "nat list"
  document_click :: "nat list"
  document_keydown :: "nat list"
  uncaught :: "jserror list"

definition initial_page :: page where
  "initial_page =
     \<lparr>prompts = [], promises = [], promptQueue_tasks = [], modal_display = False,
      modal_body = None, modal_title = [], submit_shown = True, close_click = [],
      submit_click = [], document_click = [], document_keydown = [], uncaught = []\<rparr>"

text \<open>The constructor, with its validation of the options.\<close>

definition Prompt :: "prompt_options option \<Rightarrow> page \<Rightarrow> jserror + nat \<times> page" where
  "Prompt opts s =
     (case opts of
        None \<Rightarrow> Inl (Error ''Invalid Prompt Options'')
      | Some os \<Rightarrow>
          if (style os \<noteq> ''radio'' \<and> style os \<noteq> ''tiles'') \<or> options os = None
             \<or> options os = Some []
          then Inl (Error ''Invalid Prompt Options'')
          else Inr (length (prompts s),
                    s\<lparr>prompts := prompts s @
                        [\<lparr>this_options = os, deferred = None, this_promise = None,
                          isCompiled = False, compiledElts = [], elts_filled = False\<rparr>]\<rparr>))"

definition update_prompt :: "nat \<Rightarrow> (prompt \<Rightarrow> prompt) \<Rightarrow> page \<Rightarrow> page" where
  "update_prompt p f s = s\<lparr>prompts := (prompts s)[p := f (prompts s ! p)]\<rparr>"

text \<open>
  \<open>show(callback)\<close>: it throws when the prompt has a deferred; otherwise it makes the
  deferred and gives a callback to \<open>promptQueue.then\<close>. \<open>promptQueue\<close> is bound once, to
  the fulfilled promise \<open>Q()\<close>, and nothing assigns to it again, so Q runs every such
  callback in a later turn of the event loop, in the order of the calls. \<open>show\<close> returns
  the prompt's promise, or \<open>this.promise.then(callback)\<close>.
\<close>

datatype shown = Direct nat | Then nat "jsval \<Rightarrow> jsval"

definition "show" :: "nat \<Rightarrow> (jsval \<Rightarrow> jsval) option \<Rightarrow> page \<Rightarrow> jserror + shown \<times> page" where
  "show p callback s =
     (case deferred (prompts s ! p) of
        Some d \<Rightarrow> Inl (Error ''Already showing prompt'')
      | None \<Rightarrow>
          (let a = length (promises s);
               s1 = update_prompt p (\<lambda>this. this\<lparr>deferred := Some a, this_promise := Some a\<rparr>)
                      (s\<lparr>promises := promises s @ [Pending]\<rparr>);
               s2 = s1\<lparr>promptQueue_tasks := promptQueue_tasks s1 @ [p]\<rparr>
           in Inr (case callback of None \<Rightarrow> Direct a | Some f \<Rightarrow> Then a f, s2)))"

fun settled :: "page \<Rightarrow> shown \<Rightarrow> jsval promise" where
  "settled s (Direct a) = promises s ! a"
| "settled s (Then a f) =
     (case promises s ! a of
        Fulfilled v \<Rightarrow> Fulfilled (f v)
      | Rejected e \<Rightarrow> Rejected e
      | Pending \<Rightarrow> Pending)"

text \<open>
  \<open>clearModal\<close> empties the prompt's container. \<open>populateModal\<close> draws the options once
  and caches them, checks the radio input of the first option, fills the container with
  the elements and makes the container the content of \<open>.modal-body\<close>.
\<close>

definition clearModal :: "nat \<Rightarrow> page \<Rightarrow> page" where
  "clearModal p s = update_prompt p (\<lambda>this. this\<lparr>elts_filled := False\<rparr>) s"

definition createElt :: "string \<Rightarrow> modal_option \<Rightarrow> element" where
  "createElt st option =
     (if st = ''radio'' then RadioElt (opt_value option) False else TileElt (message option))"

fun check_radio :: "element \<Rightarrow> element" where
  "check_radio (RadioElt v c) = RadioElt v True"
| "check_radio (TileElt m) = TileElt m"

fun uncheck_radio :: "element \<Rightarrow> element" where
  "uncheck_radio (RadioElt v c) = RadioElt v False"
| "uncheck_radio (TileElt m) = TileElt m"

fun check_first :: "element list \<Rightarrow> element list" where
  "check_first [] = []"
| "check_first (e # es) = check_radio e # map uncheck_radio es"

definition populateModal :: "nat \<Rightarrow> page \<Rightarrow> page" where
  "populateModal p s =
     (let this = prompts s ! p;
          optionElts =
            (if \<not> isCompiled this
             then map (createElt (style (this_options this)))
                    (case options (this_options this) of None \<Rightarrow> [] | Some os \<Rightarrow> os)
             else compiledElts this);
          s1 = update_prompt p
                 (\<lambda>this. this\<lparr>compiledElts := check_first optionElts, isCompiled := True,
                               elts_filled := True\<rparr>) s
      in s1\<lparr>modal_body := Some p\<rparr>)"

text \<open>
  The callback that \<open>show\<close> gave to \<open>promptQueue.then\<close>, when its turn comes: it binds
  \<open>onClose\<close> to the close button, \<open>onSubmit\<close> to the submit button, \<open>docClick\<close> and
  \<open>docKeydown\<close> to the document, fills the modal and displays it.
\<close>

definition show_turn :: "nat \<Rightarrow> page \<Rightarrow> page" where
  "show_turn p s =
     (let this = prompts s ! p;
          s1 = s\<lparr>submit_shown := \<not> hideSubmit (this_options this),
                 close_click := close_click s @ [p],
                 submit_click := submit_click s @ [p],
                 document_click := document_click s @ [p],
                 document_keydown := document_keydown s @ [p],
                 modal_title := prompt_title (this_options this)\<rparr>;
          s2 = populateModal p s1
      in s2\<lparr>modal_display := True\<rparr>)"

text \<open>
  \<open>onClose\<close> and \<open>onSubmit\<close> hide the modal, clear the prompt's container and then run
  \<open>this.deferred.resolve(...)\<close>, \<open>delete this.deferred\<close> and \<open>delete this.promise\<close>
  (\<open>finish\<close>): when the prompt has no deferred, reading \<open>resolve\<close> of \<open>undefined\<close> throws
  a TypeError, after the modal was hidden. \<open>onSubmit\<close> first reads
  \<open>$("input[type='radio']:checked", this.modal).val()\<close>: the value of the first checked
  radio input inside the modal, \<open>undefined\<close> when there is none.
\<close>

definition resolve :: "nat \<Rightarrow> jsval \<Rightarrow> page \<Rightarrow> page" where
  "resolve a v s =
     (case promises s ! a of
        Pending \<Rightarrow> s\<lparr>promises := (promises s)[a := Fulfilled v]\<rparr>
      | Fulfilled w \<Rightarrow> s
      | Rejected e \<Rightarrow> s)"

definition finish :: "nat \<Rightarrow> jsval \<Rightarrow> page \<Rightarrow> page \<times> jserror option" where
  "finish p v s =
     (case deferred (prompts s ! p) of
        None \<Rightarrow> (s, Some (TypeError ''resolve''))
      | Some a \<Rightarrow>
          (update_prompt p (\<lambda>this. this\<lparr>deferred := None, this_promise := None\<rparr>) (resolve a v s),
           None))"

definition onClose :: "nat \<Rightarrow> page \<Rightarrow> page \<times> jserror option" where
  "onClose p s = finish p Null (clearModal p (s\<lparr>modal_display := False\<rparr>))"

fun checked_value :: "element list \<Rightarrow> jsval" where
  "checked_value [] = Undefined"
| "checked_value (RadioElt v c # es) = (if c then Str v else checked_value es)"
| "checked_value (TileElt m # es) = checked_value es"

definition checked_in_modal :: "page \<Rightarrow> jsval" where
  "checked_in_modal s =
     (case modal_body s of
        None \<Rightarrow> Undefined
      | Some q \<Rightarrow>
          if elts_filled (prompts s ! q) then checked_value (compiledElts (prompts s ! q))
          else Undefined)"

definition onSubmit :: "nat \<Rightarrow> page \<Rightarrow> page \<times> jserror option" where
  "onSubmit p s =
     (let retval = checked_in_modal s
      in finish p retval (clearModal p (s\<lparr>modal_display := False\<rparr>)))"

text \<open>
  The two handlers on the document. \<open>docClick\<close>, for a click whose target is the modal
  itself, closes the prompt if it has a deferred and then unbinds itself; \<open>docKeydown\<close>,
  for the Escape key, calls \<open>onClose\<close> and then unbinds itself.
\<close>

definition docClick :: "nat \<Rightarrow> page \<Rightarrow> page \<times> jserror option" where
  "docClick p s =
     (if deferred (prompts s ! p) \<noteq> None
      then (case onClose p s of
              (s', None) \<Rightarrow> (s'\<lparr>document_click := remove1 p (document_click s')\<rparr>, None)
            | (s', Some e) \<Rightarrow> (s', Some e))
      else (s, None))"

definition docKeydown :: "nat \<Rightarrow> page \<Rightarrow> page \<times> jserror option" where
  "docKeydown p s =
     (case onClose p s of
        (s', None) \<Rightarrow> (s'\<lparr>document_keydown := remove1 p (document_keydown s')\<rparr>, None)
      | (s', Some e) \<Rightarrow> (s', Some e))"

text \<open>
  jQuery calls the handlers bound to an element for an event in the order in which they
  were bound, and does not catch what a handler throws: the error leaves the dispatch, and
  the handlers bound after the throwing one are not called.
\<close>

fun dispatch :: "(nat \<Rightarrow> page \<Rightarrow> page \<times> jserror option) \<Rightarrow> nat list \<Rightarrow> page \<Rightarrow> page" where
  "dispatch handler [] s = s"
| "dispatch handler (p # ps) s =
     (case handler p s of
        (s', None) \<Rightarrow> dispatch handler ps s'
      | (s', Some e) \<Rightarrow> s'\<lparr>uncaught := uncaught s' @ [e]\<rparr>)"

text \<open>
  What can happen on the page: a prompt is constructed, \<open>show()\<close> is called on a prompt,
  the event loop runs the next callback of the prompt queue, the user clicks the close
  button, the submit button or the modal's backdrop (which takes a displayed modal),
  presses Escape, or selects the radio input at a position in the displayed prompt. An
  error thrown by a call is kept in \<open>uncaught\<close>.
\<close>

fun select_nth :: "nat \<Rightarrow> element list \<Rightarrow> element list" where
  "select_nth i [] = []"
| "select_nth 0 (e # es) = check_radio e # map uncheck_radio es"
| "select_nth (Suc i) (e # es) = uncheck_radio e # select_nth i es"

datatype action =
    Construct "prompt_options option"
  | Show nat
  | Turn
  | ClickClose
  | ClickSubmit
  | ClickBackdrop
  | PressEscape
  | SelectRadio nat

fun step :: "page \<Rightarrow> action \<Rightarrow> page" where
  "step s (Construct opts) =
     (case Prompt opts s of
        Inl e \<Rightarrow> s\<lparr>uncaught := uncaught s @ [e]\<rparr>
      | Inr (p, s') \<Rightarrow> s')"
| "step s (Show p) =
     (case show p None s of
        Inl e \<Rightarrow> s\<lparr>uncaught := uncaught s @ [e]\<rparr>
      | Inr (r, s') \<Rightarrow> s')"
| "step s Turn =
     (case promptQueue_tasks s of
        [] \<Rightarrow> s
      | p # rest \<Rightarrow> show_turn p (s\<lparr>promptQueue_tasks := rest\<rparr>))"
| "step s ClickClose = dispatch onClose (close_click s) s"
| "step s ClickSubmit = dispatch onSubmit (submit_click s) s"
| "step s ClickBackdrop =
     (if modal_display s then dispatch docClick (document_click s) s else s)"
| "step s PressEscape = dispatch docKeydown (document_keydown s) s"
| "step s (SelectRadio i) =
     (case modal_body s of
        None \<Rightarrow> s
      | Some q \<Rightarrow>
          if modal_display s \<and> elts_filled (prompts s ! q)
          then update_prompt q (\<lambda>this. this\<lparr>compiledElts := select_nth i (compiledElts this)\<rparr>) s
          else s)"

definition run :: "action list \<Rightarrow> page" where
  "run actions = foldl step initial_page actions"

text \<open>
  A prompt is visible when the modal is displayed and shows the prompt's container with
  its options.
\<close>

definition visible :: "page \<Rightarrow> nat \<Rightarrow> bool" where
  "visible s p = (modal_display s \<and> modal_body s = Some p \<and> elts_filled (prompts s ! p))"

text \<open>Two prompts for the examples, and the page on which the first one is showing.\<close>

definition first_options :: prompt_options where
  "first_options =
     \<lparr>style = ''radio'',
      options = Some [\<lparr>message = ''Import as values'', opt_value = ''values''\<rparr>,
                      \<lparr>message = ''Import as tables'', opt_value = ''tables''\<rparr>],
      hideSubmit = False, prompt_title = ''Import''\<rparr>"

definition second_options :: prompt_options where
  "second_options =
     \<lparr>style = ''radio'',
      options = Some [\<lparr>message = ''Yes'', opt_value = ''yes''\<rparr>,
                      \<lparr>message = ''No'', opt_value = ''no''\<rparr>],
      hideSubmit = False, prompt_title = ''Overwrite?''\<rparr>"

definition showing_page :: page where
  "showing_page = run [Construct (Some first_options), Show 0, Turn]"

text \<open>
  The page after the first prompt was shown and submitted with its second option, and the
  second prompt was then shown and the submit button clicked.
\<close>

definition stuck_page :: page where
  "stuck_page =
     run [Construct (Some first_options), Construct (Some second_options),
          Show 0, Turn, SelectRadio 1, ClickSubmit, Show 1, Turn, ClickSubmit]"


text \<open>A page that defines no global \<open>n\<close>, as the module's own page.\<close>

definition plain_page :: host where
  "plain_page = \<lparr>global_n = None, random1000 = (\<lambda>i. 0)\<rparr>"

fun is_rejected :: "'a promise completion \<Rightarrow> bool" where
  "is_rejected (Returns (Rejected e)) = True"
| "is_rejected c = False"

section \<open>Properties of the retrying request\<close>

lemma promiseRetry_fulfilled [simp]:
  "promiseRetry h (Fulfilled v) iteration maxi = quiet (Fulfilled v)"
  by (simp add: promiseRetry.simps)

lemma promiseRetry_pending [simp]:
  "promiseRetry h Pending iteration maxi = quiet Pending"
  by (simp add: promiseRetry.simps)

lemma promiseRetry_exhausted:
  "maxi \<le> iteration \<Longrightarrow> promiseRetry h (Rejected err) iteration maxi = quiet (Rejected err)"
  by (simp add: promiseRetry.simps)

lemma promiseRetry_unbound_n:
  "iteration < maxi \<Longrightarrow>
   promiseRetry \<lparr>global_n = None, random1000 = r\<rparr> (Rejected err) iteration maxi =
     (quiet Pending)\<lparr>thrown := [ReferenceError ''n'']\<rparr>"
  by (simp add: promiseRetry.simps)

lemma promiseRetry_bound_n:
  "iteration < maxi \<Longrightarrow>
   promiseRetry \<lparr>global_n = Some n, random1000 = r\<rparr> (Rejected err :: 'a promise) iteration maxi =
     (let again = promiseRetry \<lparr>global_n = Some n, random1000 = r\<rparr> (Rejected err :: 'a promise)
                    (Suc iteration) maxi
      in \<lparr>returned = Pending,
          console = RetryingRequestIn (2 ^ n * 1000 + r iteration) # RetryingRequestNow # console again,
          timeouts = (2 ^ n * 1000 + r iteration) # timeouts again,
          thrown = thrown again\<rparr>)"
  by (subst promiseRetry.simps) (simp add: Let_def)

lemma promiseRetry_retry_pending:
  "iteration < maxi \<Longrightarrow> returned (promiseRetry h (Rejected err) iteration maxi) = Pending"
  by (subst promiseRetry.simps) (simp add: Let_def quiet_def split: option.split)

lemma promiseRetry_timeouts_bound_n:
  "timeouts (promiseRetry \<lparr>global_n = Some n, random1000 = r\<rparr> (Rejected err) iteration maxi) =
     map (\<lambda>i. 2 ^ n * 1000 + r i) [iteration..<maxi]"
proof (induction "maxi - iteration" arbitrary: iteration)
  case 0
  then show ?case by (simp add: promiseRetry_exhausted quiet_def)
next
  case (Suc d)
  then have lt: "iteration < maxi" and d: "d = maxi - Suc iteration" by simp_all
  from Suc.hyps(1) [OF d] lt show ?case
    by (simp add: promiseRetry_bound_n Let_def upt_conv_Cons)
qed

text \<open>
  C1. A request wrapped by \<open>promiseRetry\<close> that fails is meant to be retried until it
  succeeds, and to reject with the last failure once the bound is reached. On the code,
  for the call \<open>promiseRetry(p, 0, 5)\<close> that \<open>getFile\<close> and \<open>getFilesInFolder\<close> make, a
  rejected \<open>p\<close> leaves the returned promise pending for ever, on every page: on a page
  without a global \<open>n\<close> the failure handler throws before anything is logged, and on a
  page with one the five retries are logged and timed but each settles a deferred of its
  own, which nobody holds.
\<close>

theorem promiseRetry_failure_never_settles:
  "returned (promiseRetry h (Rejected err) 0 5) = Pending
   \<and> console (promiseRetry \<lparr>global_n = None, random1000 = r\<rparr> (Rejected err) 0 5) = []
   \<and> length (timeouts (promiseRetry \<lparr>global_n = Some n, random1000 = r\<rparr> (Rejected err) 0 5)) = 5"
  by (simp add: promiseRetry_retry_pending promiseRetry_unbound_n promiseRetry_timeouts_bound_n
      quiet_def)

text \<open>
  C5. The wait before a retry is meant to be \<open>2 ^ attempt * 1000\<close> milliseconds plus the
  jitter. The code writes \<open>Math.pow(2, n)\<close>: on a page without a global \<open>n\<close> no wait is
  computed at all (the handler throws a ReferenceError and sets no timer), and on a page
  that defines \<open>n\<close> every attempt waits \<open>2 ^ n * 1000\<close> plus its jitter, whatever the
  attempt index is.
\<close>

theorem promiseRetry_wait_ignores_attempt:
  "timeouts (promiseRetry \<lparr>global_n = None, random1000 = r\<rparr> (Rejected err) 0 5) = []
   \<and> thrown (promiseRetry \<lparr>global_n = None, random1000 = r\<rparr> (Rejected err) 0 5) =
       [ReferenceError ''n'']
   \<and> timeouts (promiseRetry \<lparr>global_n = Some n, random1000 = r\<rparr> (Rejected err) 0 5) =
       map (\<lambda>attempt. 2 ^ n * 1000 + r attempt) [0..<5]"
  by (simp add: promiseRetry_unbound_n promiseRetry_timeouts_bound_n quiet_def)

text \<open>
  C6, as the spec states it: a call to \<open>getFile\<close> or \<open>getFilesInFolder\<close> made before the
  storage API is published returns a rejected promise. It does not: the call returns
  \<open>undefined\<close>.
\<close>

theorem getFile_unready_not_rejected_counterexample:
  "\<not> is_rejected (returned (getFile plain_page None ''suite''))
   \<and> \<not> is_rejected (returned (getFilesInFolder plain_page None ''assignment''))"
  by (simp add: getFile_def getFilesInFolder_def quiet_def)

text \<open>
  C6, amended: while \<open>api\<close> is unset, \<open>getFile\<close> and \<open>getFilesInFolder\<close> write the message
  \<open>errNoApiMessage\<close> to the error console and return \<open>undefined\<close>; they return no promise,
  set no timer and reject nothing. A caller that chains \<open>.then\<close> on the result, as
  \<open>gatherSubmissions\<close> does, throws a TypeError.
\<close>

theorem getFile_unready_returns_undefined:
  "getFile h None ident =
     \<lparr>returned = ReturnsUndefined, console = [ConsoleErrorMessage errNoApiMessage],
      timeouts = [], thrown = []\<rparr>
   \<and> getFilesInFolder h None folderId =
     \<lparr>returned = ReturnsUndefined, console = [ConsoleErrorMessage errNoApiMessage],
      timeouts = [], thrown = []\<rparr>
   \<and> gatherSubmissions h None folderId =
     \<lparr>returned = Throws (TypeError ''then''), console = [ConsoleErrorMessage errNoApiMessage],
      timeouts = [], thrown = []\<rparr>"
  by (simp add: getFile_def getFilesInFolder_def gatherSubmissions_def gatherSubmissions_on_def
      with_result_def quiet_def)

section \<open>Properties of gatherSubmissions\<close>

lemma getFilesInFolder_fulfilled:
  "api_getFilesInFolder a folderId = Fulfilled fs \<Longrightarrow>
   getFilesInFolder h (Some a) folderId = quiet (Returns (Fulfilled fs))"
  by (simp add: getFilesInFolder_def returning_def quiet_def promiseRetry.simps)

lemma after_quiet [simp]: "after (quiet v) c = c"
  by (simp add: after_def quiet_def)

lemma with_result_quiet [simp]: "with_result (quiet v) w = quiet w"
  by (simp add: with_result_def quiet_def)

lemma returned_quiet [simp]: "returned (quiet v) = v"
  by (simp add: quiet_def)

lemma student_chain_listed:
  assumes "listed (api_getFilesInFolder a) student"
  shows "student_chain (getFilesInFolder h (Some a)) student subs =
           quiet (Inr (Fulfilled (chain_value (api_getFilesInFolder a) student)),
                  store (getName student) (chain_value (api_getFilesInFolder a) student) subs)"
proof (cases "api_getFilesInFolder a (getUniqueId student)")
  case Pending
  with assms show ?thesis by (simp add: listed_def)
next
  case (Rejected e)
  with assms show ?thesis by (simp add: listed_def)
next
  case (Fulfilled dirs)
  note dirs = this
  show ?thesis
  proof (cases "find (\<lambda>dir. getName dir = ''final-submission'') dirs")
    case None
    with dirs show ?thesis
      by (simp add: student_chain_def getFilesInFolder_fulfilled final_handler_def
          chain_value_def final_files_def)
  next
    case (Some dir)
    with assms dirs obtain files where
      files: "api_getFilesInFolder a (getUniqueId dir) = Fulfilled files"
      by (auto simp: listed_def split: promise.splits)
    with dirs Some show ?thesis
      by (simp add: student_chain_def getFilesInFolder_fulfilled final_handler_def
          chain_value_def final_files_def)
  qed
qed

lemma gather_students_listed:
  assumes "list_all (listed (api_getFilesInFolder a)) students"
  shows "gather_students (getFilesInFolder h (Some a)) students subs =
           quiet (Inr (map (\<lambda>s. Fulfilled (chain_value (api_getFilesInFolder a) s)) students),
                  foldl (\<lambda>acc s. store (getName s) (chain_value (api_getFilesInFolder a) s) acc) subs students)"
  using assms
  by (induction students arbitrary: subs) (simp_all add: student_chain_listed)

lemma Q_all_fulfilled: "Q_all (map (\<lambda>s. Fulfilled (f s)) xs) = Fulfilled (map f xs)"
  by (induction xs) simp_all

lemma update_fresh: "k \<notin> fst ` set al \<Longrightarrow> AList.update k v al = al @ [(k, v)]"
  by (induction al) auto

lemma gathered_Cons:
  "gathered listing (s # students) =
     (case final_files listing s of None \<Rightarrow> [] | Some v \<Rightarrow> [(getName s, v)]) @ gathered listing students"
  by (simp add: gathered_def map_filter_simps split: option.splits)

lemma final_files_truthy: "final_files listing s = Some v \<Longrightarrow> truthy v"
  by (auto simp: final_files_def split: promise.splits option.splits)

lemma stores_gathered:
  assumes "distinct (map getName students)" "fst ` set subs \<inter> getName ` set students = {}"
  shows "foldl (\<lambda>acc s. store (getName s) (chain_value listing s) acc) subs students =
           subs @ gathered listing students"
  using assms
proof (induction students arbitrary: subs)
  case Nil
  then show ?case by (simp add: gathered_def map_filter_simps)
next
  case (Cons s students)
  show ?case
  proof (cases "final_files listing s")
    case None
    with Cons.prems Cons.IH [of subs] show ?thesis
      by (simp add: gathered_Cons chain_value_def store_def)
  next
    case (Some v)
    have fresh: "getName s \<notin> fst ` set subs" using Cons.prems by auto
    have "fst ` set (subs @ [(getName s, v)]) \<inter> getName ` set students = {}"
      using Cons.prems by auto
    with Cons.prems Cons.IH [of "subs @ [(getName s, v)]"] Some fresh show ?thesis
      by (simp add: gathered_Cons chain_value_def store_def final_files_truthy update_fresh)
  qed
qed

text \<open>
  C3, as the spec states it: a student without a folder final-submission gets the value
  \<open>null\<close> under the student's key, so that alice and bob, where bob has no such folder,
  give \<open>{alice: [...], bob: null}\<close>. On the example drive the promise is fulfilled with an
  object that has no property bob at all.
\<close>

theorem gatherSubmissions_bob_null_counterexample:
  "returned (gatherSubmissions plain_page (Some example_drive) ''assignment'') =
     Returns (Fulfilled
       [(''alice'', FilesArray [DriveFile ''impl.arr'' ''id-impl'', DriveFile ''tests.arr'' ''id-tests''])])
   \<and> returned (gatherSubmissions plain_page (Some example_drive) ''assignment'') \<noteq>
     Returns (Fulfilled
       [(''alice'', FilesArray [DriveFile ''impl.arr'' ''id-impl'', DriveFile ''tests.arr'' ''id-tests'']),
        (''bob'', FilesNull)])"
  by (simp add: gatherSubmissions_def gatherSubmissions_on_def getFilesInFolder_def
      example_drive_def example_listing_def promiseRetry.simps returning_def quiet_def after_def
      with_result_def student_chain_def final_handler_def store_def plain_page_def)

text \<open>
  C3, amended: a student folder without a child named exactly final-submission is left
  out of the mapping (the student's chain carries \<open>null\<close>, which the guard \<open>if (files)\<close>
  does not store) and does not keep the other students from being gathered. When the
  listing of the assignment folder succeeds with students of distinct names and every
  listing a student needs succeeds, the returned promise is fulfilled with the object
  that has, in the students' order, one property for each student that has such a folder,
  holding the files of that folder.
\<close>

theorem gatherSubmissions_skips_missing_final_submission:
  assumes "api_getFilesInFolder a submissionsFolderId = Fulfilled students"
    and "distinct (map getName students)"
    and "list_all (listed (api_getFilesInFolder a)) students"
  shows "returned (gatherSubmissions h (Some a) submissionsFolderId) =
           Returns (Fulfilled (gathered (api_getFilesInFolder a) students))"
  using assms
  by (simp add: gatherSubmissions_def gatherSubmissions_on_def getFilesInFolder_fulfilled
      gather_students_listed Q_all_fulfilled stores_gathered)

theorem gatherSubmissions_skips_missing_final_submission_witness:
  "api_getFilesInFolder example_drive ''assignment'' =
     Fulfilled [DriveFile ''alice'' ''id-alice'', DriveFile ''bob'' ''id-bob'']
   \<and> distinct (map getName [DriveFile ''alice'' ''id-alice'', DriveFile ''bob'' ''id-bob''])
   \<and> list_all (listed (api_getFilesInFolder example_drive))
        [DriveFile ''alice'' ''id-alice'', DriveFile ''bob'' ''id-bob'']
   \<and> final_files (api_getFilesInFolder example_drive) (DriveFile ''bob'' ''id-bob'') = None
   \<and> returned (gatherSubmissions plain_page (Some example_drive) ''assignment'') =
       Returns (Fulfilled
         [(''alice'', FilesArray [DriveFile ''impl.arr'' ''id-impl'', DriveFile ''tests.arr'' ''id-tests''])])"
proof -
  let ?students = "[DriveFile ''alice'' ''id-alice'', DriveFile ''bob'' ''id-bob'']"
  have root: "api_getFilesInFolder example_drive ''assignment'' = Fulfilled ?students"
    by (simp add: example_drive_def example_listing_def)
  have names: "distinct (map getName ?students)"
    by simp
  have ok: "list_all (listed (api_getFilesInFolder example_drive)) ?students"
    by (simp add: listed_def example_drive_def example_listing_def)
  have bob: "final_files (api_getFilesInFolder example_drive) (DriveFile ''bob'' ''id-bob'') = None"
    by (simp add: final_files_def example_drive_def example_listing_def)
  have result: "gathered (api_getFilesInFolder example_drive) ?students =
      [(''alice'', FilesArray [DriveFile ''impl.arr'' ''id-impl'', DriveFile ''tests.arr'' ''id-tests''])]"
    by (simp add: gathered_def map_filter_simps final_files_def example_drive_def example_listing_def)
  from gatherSubmissions_skips_missing_final_submission [OF root names ok, of plain_page]
  show ?thesis using root names ok bob result by simp
qed

text \<open>
  C4. An unrecoverable failure of a listing call is meant to reject the promise that
  \<open>gatherSubmissions\<close> returns. The failure handler at the end of the chain only gives
  the error to \<open>console.error\<close>: whatever \<open>getFilesInFolder\<close> does, the returned promise
  is never rejected. When a listing call's promise is rejected the returned promise stays
  pending; and with \<open>getFilesInFolder\<close> as it is, a drive whose listing fails leaves it
  pending without a line in the console.
\<close>

theorem gatherSubmissions_never_rejects:
  "returned (gatherSubmissions_on gfi submissionsFolderId) \<noteq> Returns (Rejected e)
   \<and> gatherSubmissions_on (\<lambda>folderId. quiet (Returns (Rejected err))) submissionsFolderId =
       \<lparr>returned = Returns Pending, console = [ConsoleError err], timeouts = [], thrown = []\<rparr>
   \<and> gatherSubmissions plain_page (Some failing_drive) ''assignment'' =
       \<lparr>returned = Returns Pending, console = [], timeouts = [],
        thrown = [ReferenceError ''n'']\<rparr>"
proof (intro conjI)
  show "returned (gatherSubmissions_on gfi submissionsFolderId) \<noteq> Returns (Rejected e)"
    by (simp add: gatherSubmissions_on_def Let_def logging_failure_def with_result_def
        split: completion.splits promise.splits prod.splits sum.splits)
  show "gatherSubmissions_on (\<lambda>folderId. quiet (Returns (Rejected err))) submissionsFolderId =
      \<lparr>returned = Returns Pending, console = [ConsoleError err], timeouts = [], thrown = []\<rparr>"
    by (simp add: gatherSubmissions_on_def logging_failure_def quiet_def)
  show "gatherSubmissions plain_page (Some failing_drive) ''assignment'' =
      \<lparr>returned = Returns Pending, console = [], timeouts = [], thrown = [ReferenceError ''n'']\<rparr>"
    by (simp add: gatherSubmissions_def gatherSubmissions_on_def getFilesInFolder_def
        failing_drive_def plain_page_def promiseRetry.simps returning_def quiet_def
        with_result_def)
qed

section \<open>Properties of the result exporter\<close>















































section \<open>Properties of the grading table\<close>

lemma classes_mark_result [simp]: "classes (mark_result result c) = classes c"
  by (simp add: mark_result_def split: run_result.splits option.splits)

lemma length_target_clicked [simp]: "length (target_clicked i tbl) = length tbl"
  by (simp add: target_clicked_def)

lemma length_target_finished [simp]: "length (target_finished i result tbl) = length tbl"
  by (simp add: target_finished_def)







section \<open>Properties of the modal prompt\<close>

lemmas prompt_defs =
  run_def initial_page_def Prompt_def show_def update_prompt_def show_turn_def populateModal_def
  createElt_def onClose_def onSubmit_def finish_def resolve_def clearModal_def
  checked_in_modal_def docClick_def docKeydown_def visible_def first_options_def
  second_options_def

text \<open>
  C2. Two prompts whose \<open>show()\<close> is called in order are meant to become visible one
  after the other, the second only once the first has resolved. Both callbacks are given
  to the same, already fulfilled \<open>promptQueue\<close>, so they run in consecutive turns: after
  the first turn the first prompt is visible, after the second turn the second prompt has
  taken the modal over while the promise of the first is still pending.
\<close>

theorem second_prompt_takes_over:
  "visible (run [Construct (Some first_options), Construct (Some second_options),
                 Show 0, Show 1, Turn]) 0
   \<and> visible (run [Construct (Some first_options), Construct (Some second_options),
                   Show 0, Show 1, Turn, Turn]) 1
   \<and> settled (run [Construct (Some first_options), Construct (Some second_options),
                   Show 0, Show 1, Turn, Turn]) (Direct 0) = Pending"
  by (simp add: prompt_defs)

lemma first_prompt_dismissed:
  "settled (run [Construct (Some first_options), Show 0, Turn, ClickClose]) (Direct 0) =
     Fulfilled Null
   \<and> settled (run [Construct (Some first_options), Show 0, Turn, ClickBackdrop]) (Direct 0) =
     Fulfilled Null
   \<and> settled (run [Construct (Some first_options), Show 0, Turn, PressEscape]) (Direct 0) =
     Fulfilled Null
   \<and> settled (run [Construct (Some first_options), Show 0, Turn, ClickSubmit]) (Direct 0) =
     Fulfilled (Str ''values'')"
  by (simp add: prompt_defs)

text \<open>
  C7. A submit is meant to resolve the promise of \<open>show()\<close> with the selected value, and
  a dismissal with \<open>null\<close>. That is what happens to the first prompt shown on a page
  (here the user selects the second option and submits). The handlers it bound to the
  buttons and to the document stay bound, though, so for the next prompt they run first,
  find no deferred and throw, which ends the dispatch: neither the submit button, nor the
  close button, nor the Escape key resolves the promise of the second prompt.
\<close>

theorem later_prompt_never_resolves:
  "settled (run [Construct (Some first_options), Construct (Some second_options),
                 Show 0, Turn, SelectRadio 1, ClickSubmit,
                 Show 1, Turn, ClickSubmit]) (Direct 0) = Fulfilled (Str ''tables'')
   \<and> settled (run [Construct (Some first_options), Construct (Some second_options),
                   Show 0, Turn, SelectRadio 1, ClickSubmit,
                   Show 1, Turn, ClickSubmit]) (Direct 1) = Pending
   \<and> settled (run [Construct (Some first_options), Construct (Some second_options),
                   Show 0, Turn, SelectRadio 1, ClickSubmit,
                   Show 1, Turn, ClickClose]) (Direct 1) = Pending
   \<and> settled (run [Construct (Some first_options), Construct (Some second_options),
                   Show 0, Turn, SelectRadio 1, ClickSubmit,
                   Show 1, Turn, PressEscape]) (Direct 1) = Pending
   \<and> uncaught (run [Construct (Some first_options), Construct (Some second_options),
                   Show 0, Turn, SelectRadio 1, ClickSubmit,
                   Show 1, Turn, ClickSubmit]) = [TypeError ''resolve'']
   \<and> \<not> modal_display (run [Construct (Some first_options), Construct (Some second_options),
                   Show 0, Turn, SelectRadio 1, ClickSubmit,
                   Show 1, Turn, ClickSubmit])"
  by (simp add: prompt_defs)


lemma prompts_update_prompt:
  "p < length (prompts s) \<Longrightarrow> prompts (update_prompt p f s) ! p = f (prompts s ! p)"
  by (simp add: update_prompt_def)

lemma length_prompts_update_prompt [simp]:
  "length (prompts (update_prompt p f s)) = length (prompts s)"
  by (simp add: update_prompt_def)

lemma prompts_resolve [simp]: "prompts (resolve a v s) = prompts s"
  by (simp add: resolve_def split: promise.splits)

lemma show_refused:
  "deferred (prompts s ! p) = Some a \<Longrightarrow>
   show p callback s = Inl (Error ''Already showing prompt'')"
  by (simp add: show_def)

lemma show_accepted:
  assumes "p < length (prompts s)" "deferred (prompts s ! p) = None"
  shows "\<exists>r s'. show p callback s = Inr (r, s')
           \<and> deferred (prompts s' ! p) = Some (length (promises s))
           \<and> promises s' ! length (promises s) = Pending"
  using assms by (simp add: show_def Let_def update_prompt_def)

lemma finish_clears:
  assumes "p < length (prompts s)" "deferred (prompts s ! p) = Some a"
  shows "snd (finish p v s) = None
       \<and> deferred (prompts (fst (finish p v s)) ! p) = None
       \<and> this_promise (prompts (fst (finish p v s)) ! p) = None
       \<and> length (prompts (fst (finish p v s))) = length (prompts s)"
  using assms by (simp add: finish_def prompts_update_prompt)

lemma cleared_keeps_deferred:
  assumes "p < length (prompts s)"
  shows "deferred (prompts (clearModal p (s\<lparr>modal_display := False\<rparr>)) ! p) = deferred (prompts s ! p)
       \<and> length (prompts (clearModal p (s\<lparr>modal_display := False\<rparr>))) = length (prompts s)"
  using assms by (simp add: clearModal_def update_prompt_def)

lemma onClose_clears:
  assumes "p < length (prompts s)" "deferred (prompts s ! p) = Some a"
  shows "snd (onClose p s) = None
       \<and> deferred (prompts (fst (onClose p s)) ! p) = None
       \<and> this_promise (prompts (fst (onClose p s)) ! p) = None
       \<and> length (prompts (fst (onClose p s))) = length (prompts s)"
  unfolding onClose_def
  using finish_clears [of p "clearModal p (s\<lparr>modal_display := False\<rparr>)" a Null]
    cleared_keeps_deferred [OF assms(1)] assms
  by simp

lemma onSubmit_clears:
  assumes "p < length (prompts s)" "deferred (prompts s ! p) = Some a"
  shows "snd (onSubmit p s) = None
       \<and> deferred (prompts (fst (onSubmit p s)) ! p) = None
       \<and> this_promise (prompts (fst (onSubmit p s)) ! p) = None
       \<and> length (prompts (fst (onSubmit p s))) = length (prompts s)"
  unfolding onSubmit_def Let_def
  using finish_clears [of p "clearModal p (s\<lparr>modal_display := False\<rparr>)" a "checked_in_modal s"]
    cleared_keeps_deferred [OF assms(1)] assms
  by simp

text \<open>
  C8. A prompt is meant to have at most one outstanding \<open>show()\<close>, and to be free for
  another \<open>show()\<close> after a submission or a dismissal. The first half holds: while the
  prompt has a deferred, \<open>show\<close> throws. The handlers \<open>onClose\<close> and \<open>onSubmit\<close> do delete
  the deferred and the promise when they run (the lemmas above), as they did for the first
  prompt of the page below. For the second prompt they never run: the stale handlers of
  the first prompt throw before them, so after the user's submit the deferred is still
  there, the promise is pending and \<open>show\<close> throws, and it stays so after another submit, a
  click on the close button and the Escape key.
\<close>

theorem later_prompt_stays_outstanding:
  "show 0 None showing_page = Inl (Error ''Already showing prompt'')
   \<and> deferred (prompts stuck_page ! 0) = None
   \<and> settled stuck_page (Direct 0) = Fulfilled (Str ''tables'')
   \<and> deferred (prompts stuck_page ! 1) = Some 1
   \<and> this_promise (prompts stuck_page ! 1) = Some 1
   \<and> settled stuck_page (Direct 1) = Pending
   \<and> show 1 None stuck_page = Inl (Error ''Already showing prompt'')
   \<and> deferred (prompts (foldl step stuck_page [ClickSubmit, ClickClose, PressEscape]) ! 1) = Some 1
   \<and> show 1 None (foldl step stuck_page [ClickSubmit, ClickClose, PressEscape]) =
       Inl (Error ''Already showing prompt'')"
  by (simp add: stuck_page_def showing_page_def run_def initial_page_def Prompt_def show_def
      update_prompt_def show_turn_def populateModal_def createElt_def onClose_def onSubmit_def
      finish_def resolve_def clearModal_def checked_in_modal_def docClick_def docKeydown_def
      first_options_def second_options_def)

end
